theory Spec2Isabelle
  imports Complex_Main "HOL-Library.Sublist"
begin

section \<open>JavaScript values at the JSON boundary\<close>

text \<open>
  The request body of the cookie routes is parsed by \<^verbatim>\<open>express.json\<close>, so every
  value the handlers read is a JSON value.  A property that is absent reads as
  \<^verbatim>\<open>undefined\<close>, which is \<open>None\<close> below.  JSON numbers are finite doubles; they
  are embedded in \<open>real\<close>, where the comparisons of the source are exact.
\<close>

datatype json =
    JNull
  | JBool bool
  | JNum real
  | JStr string
  | JArr "json list"
  | JObj "(string \<times> json) list"

text \<open>JavaScript truthiness, as used by \<^verbatim>\<open>&&\<close>, \<^verbatim>\<open>||\<close>, \<^verbatim>\<open>!\<close> and \<^verbatim>\<open>if\<close>.\<close>

fun truthy :: "json option \<Rightarrow> bool" where
  "truthy None = False"
| "truthy (Some JNull) = False"
| "truthy (Some (JBool b)) = b"
| "truthy (Some (JNum n)) = (n \<noteq> 0)"
| "truthy (Some (JStr s)) = (s \<noteq> [])"
| "truthy (Some (JArr xs)) = True"
| "truthy (Some (JObj kvs)) = True"

text \<open>The \<^verbatim>\<open>typeof\<close> operator.\<close>

fun typeof :: "json option \<Rightarrow> string" where
  "typeof None = ''undefined''"
| "typeof (Some JNull) = ''object''"
| "typeof (Some (JBool b)) = ''boolean''"
| "typeof (Some (JNum n)) = ''number''"
| "typeof (Some (JStr s)) = ''string''"
| "typeof (Some (JArr xs)) = ''object''"
| "typeof (Some (JObj kvs)) = ''object''"

text \<open>
  \<^verbatim>\<open>lo < v && v <= hi\<close> and \<^verbatim>\<open>lo <= v && v <= hi\<close>; the source evaluates them
  only to the right of \<^verbatim>\<open>typeof v === 'number'\<close>, so no coercion takes place.
\<close>

fun num_in_left_open :: "real \<Rightarrow> real \<Rightarrow> json option \<Rightarrow> bool" where
  "num_in_left_open lo hi (Some (JNum n)) = (lo < n \<and> n \<le> hi)"
| "num_in_left_open lo hi v = False"

fun num_in_closed :: "real \<Rightarrow> real \<Rightarrow> json option \<Rightarrow> bool" where
  "num_in_closed lo hi (Some (JNum n)) = (lo \<le> n \<and> n \<le> hi)"
| "num_in_closed lo hi v = False"

text \<open>\<^verbatim>\<open>a || d\<close> with a default \<open>d\<close> that is a value.\<close>

fun or_default :: "json option \<Rightarrow> json \<Rightarrow> json" where
  "or_default None d = d"
| "or_default (Some x) d = (if truthy (Some x) then x else d)"

section \<open>Ad-hoc job options and their validation\<close>

text \<open>
  Both \<^verbatim>\<open>req.body.options\<close> and the \<^verbatim>\<open>validOptions\<close> object built from it are
  plain objects whose properties may be absent.  \<^verbatim>\<open>executeScript\<close> is read by
  \<^verbatim>\<open>visitCustomUrl\<close> but never copied by the route.
\<close>

record options =
  timeout :: "json option"
  waitUntil :: "json option"
  initialWait :: "json option"
  cloudflareWait :: "json option"
  additionalWait :: "json option"
  headers :: "json option"
  viewport :: "json option"
  executeScript :: "json option"

definition waitUntil_modes :: "json option list" where
  "waitUntil_modes =
     [Some (JStr ''load''), Some (JStr ''domcontentloaded''),
      Some (JStr ''networkidle0''), Some (JStr ''networkidle2'')]"

text \<open>The guards of the seven \<^verbatim>\<open>if\<close> statements under \<^verbatim>\<open>// Validate options\<close>.\<close>

definition timeout_guard :: "json option \<Rightarrow> bool" where
  "timeout_guard v =
     (truthy v \<and> typeof v = ''number'' \<and> num_in_left_open 0 120000 v)"

definition waitUntil_guard :: "json option \<Rightarrow> bool" where
  "waitUntil_guard v = (truthy v \<and> v \<in> set waitUntil_modes)"

definition wait_guard :: "real \<Rightarrow> json option \<Rightarrow> bool" where
  "wait_guard hi v =
     (truthy v \<and> typeof v = ''number'' \<and> num_in_closed 0 hi v)"

definition object_guard :: "json option \<Rightarrow> bool" where
  "object_guard v = (truthy v \<and> typeof v = ''object'')"

definition keep_if :: "bool \<Rightarrow> json option \<Rightarrow> json option" where
  "keep_if g v = (if g then v else None)"

definition validOptions :: "options \<Rightarrow> options" where
  "validOptions opts =
     \<lparr> timeout = keep_if (timeout_guard (timeout opts)) (timeout opts),
       waitUntil = keep_if (waitUntil_guard (waitUntil opts)) (waitUntil opts),
       initialWait = keep_if (wait_guard 30000 (initialWait opts)) (initialWait opts),
       cloudflareWait = keep_if (wait_guard 60000 (cloudflareWait opts)) (cloudflareWait opts),
       additionalWait = keep_if (wait_guard 30000 (additionalWait opts)) (additionalWait opts),
       headers = keep_if (object_guard (headers opts)) (headers opts),
       viewport = keep_if (object_guard (viewport opts)) (viewport opts),
       executeScript = None \<rparr>"

text \<open>
  The values \<^verbatim>\<open>visitCustomUrl\<close> works with: the option when it is truthy, the
  built-in default otherwise.  There is no default additional wait, no default
  headers and no default viewport: a falsy option means the step is skipped.
\<close>

definition goto_waitUntil :: "options \<Rightarrow> json" where
  "goto_waitUntil opts = or_default (waitUntil opts) (JStr ''networkidle2'')"

definition goto_timeout :: "options \<Rightarrow> json" where
  "goto_timeout opts = or_default (timeout opts) (JNum 60000)"

definition initial_delay :: "options \<Rightarrow> json" where
  "initial_delay opts = or_default (initialWait opts) (JNum 5000)"

definition challenge_delay :: "options \<Rightarrow> json" where
  "challenge_delay opts = or_default (cloudflareWait opts) (JNum 10000)"

section \<open>Browser pages: awaited calls and their traces\<close>

text \<open>
  Every \<^verbatim>\<open>await\<close> on a puppeteer call either resolves with a value or throws.
  Which of the two happens is decided by the browser and the visited site, not by
  this program, so it is a parameter of the model: a \<open>page_env\<close> fixes the outcome
  of every call made on one page.  Every awaited call is taken to settle.  The
  calls a visit makes are recorded, in order, as a list of events.
\<close>

datatype 'a outcome = Resolves 'a | Throws string

datatype event =
    NewPage
  | SetUserAgent string
  | SetExtraHTTPHeaders "json option"
  | SetViewport "json option"
  | Goto json json json
  | Delay json
  | Title
  | Evaluate "json option"
  | Cookies
  | ClosePage

record page_env =
  on_newPage :: "unit outcome"
  on_setUserAgent :: "unit outcome"
  on_setExtraHTTPHeaders :: "unit outcome"
  on_setViewport :: "unit outcome"
  on_goto :: "unit outcome"
  on_title :: "string outcome"
  on_evaluate :: "unit outcome"
  on_cookies :: "(string \<times> string) list outcome"
  on_close :: "unit outcome"

text \<open>
  A block of awaited calls yields the thrown message (\<open>Inl\<close>) or its value
  (\<open>Inr\<close>), together with the calls made.  \<open>andThen\<close> is sequencing inside a
  \<^verbatim>\<open>try\<close> block: the first throw leaves the block.
\<close>

type_synonym 'a io = "(string + 'a) \<times> event list"

definition call :: "event \<Rightarrow> 'a outcome \<Rightarrow> 'a io" where
  "call ev out = (case out of Resolves v \<Rightarrow> (Inr v, [ev]) | Throws m \<Rightarrow> (Inl m, [ev]))"

definition delay :: "json \<Rightarrow> unit io" where
  "delay ms = (Inr (), [Delay ms])"

definition skip :: "unit io" where
  "skip = (Inr (), [])"

definition andThen :: "'a io \<Rightarrow> ('a \<Rightarrow> 'b io) \<Rightarrow> 'b io" where
  "andThen m k =
     (case m of
        (Inl e, tr) \<Rightarrow> (Inl e, tr)
      | (Inr v, tr) \<Rightarrow> (case k v of (r, tr') \<Rightarrow> (r, tr @ tr')))"

definition user_agent :: string where
  "user_agent = ''Mozilla/5.0 (Windows NT 10.0; Win64; x64) AppleWebKit/537.36 (KHTML, like Gecko) Chrome/91.0.4472.124 Safari/537.36''"

text \<open>\<^verbatim>\<open>s.includes(pat)\<close> on strings.\<close>

fun str_includes :: "string \<Rightarrow> string \<Rightarrow> bool" where
  "str_includes [] pat = (pat = [])"
| "str_includes (c # cs) pat = (prefix pat (c # cs) \<or> str_includes cs pat)"

definition is_challenge :: "string \<Rightarrow> bool" where
  "is_challenge title =
     (str_includes title ''Just a moment'' \<or> str_includes title ''Cloudflare'')"

text \<open>\<^verbatim>\<open>xs.join(sep)\<close>.\<close>

fun join :: "string \<Rightarrow> string list \<Rightarrow> string" where
  "join sep [] = []"
| "join sep [x] = x"
| "join sep (x # y # ys) = x @ sep @ join sep (y # ys)"

definition cookieString :: "(string \<times> string) list \<Rightarrow> string" where
  "cookieString cs = join ''; '' (map (\<lambda>(name, val). name @ ''='' @ val) cs)"

text \<open>A settled promise.\<close>

datatype 'a promise = Fulfilled 'a | Rejected string

text \<open>
  Calling a method on \<^verbatim>\<open>null\<close>: \<^verbatim>\<open>this.browser.newPage()\<close> before the browser
  was launched throws a TypeError, whose message (with its two quotation marks,
  character 0x27) is this.
\<close>

definition null_browser :: string where
  "null_browser =
     ''Cannot read properties of null (reading '' @ [CHR 0x27] @ ''newPage'' @ [CHR 0x27] @ '')''"

section \<open>The built-in visits\<close>

text \<open>
  \<^verbatim>\<open>visitAnimepahe\<close>, \<^verbatim>\<open>visitPaheWin\<close> and \<^verbatim>\<open>visitKiwik\<close> are the same function
  text up to the address visited and the log messages; \<open>visitSite\<close> is that text.
  The page is acquired before the \<^verbatim>\<open>try\<close>; the \<^verbatim>\<open>catch\<close> turns a throw into
  \<^verbatim>\<open>null\<close>; the \<^verbatim>\<open>finally\<close> closes the page, and a throw of \<^verbatim>\<open>page.close()\<close>
  replaces the value returned.
\<close>

definition visitSite_try :: "string \<Rightarrow> page_env \<Rightarrow> string io" where
  "visitSite_try url env =
     andThen (call (SetUserAgent user_agent) (on_setUserAgent env)) (\<lambda>_.
     andThen (call (Goto (JStr url) (JStr ''networkidle2'') (JNum 60000)) (on_goto env)) (\<lambda>_.
     andThen (delay (JNum 5000)) (\<lambda>_.
     andThen (call Title (on_title env)) (\<lambda>title.
     andThen (if is_challenge title then delay (JNum 10000) else skip) (\<lambda>_.
     andThen (call Cookies (on_cookies env)) (\<lambda>cs.
     (Inr (cookieString cs), [])))))))"

definition visitSite :: "nat option \<Rightarrow> string \<Rightarrow> page_env \<Rightarrow> string option promise \<times> event list" where
  "visitSite b url env =
     (case b of
        None \<Rightarrow> (Rejected null_browser, [])
      | Some h \<Rightarrow>
          (case on_newPage env of
             Throws m \<Rightarrow> (Rejected m, [NewPage])
           | Resolves u \<Rightarrow>
               (case visitSite_try url env of
                  (r, tr) \<Rightarrow>
                    (case on_close env of
                       Resolves u' \<Rightarrow>
                         (Fulfilled (case r of Inr s \<Rightarrow> Some s | Inl m \<Rightarrow> None),
                          NewPage # tr @ [ClosePage])
                     | Throws m \<Rightarrow> (Rejected m, NewPage # tr @ [ClosePage])))))"

definition visitAnimepahe :: "nat option \<Rightarrow> page_env \<Rightarrow> string option promise \<times> event list" where
  "visitAnimepahe b env = visitSite b ''https://animepahe.com'' env"

definition visitPaheWin :: "nat option \<Rightarrow> page_env \<Rightarrow> string option promise \<times> event list" where
  "visitPaheWin b env = visitSite b ''https://pahe.win'' env"

definition visitKiwik :: "nat option \<Rightarrow> page_env \<Rightarrow> string option promise \<times> event list" where
  "visitKiwik b env = visitSite b ''https://kwik.si'' env"

section \<open>The ad-hoc visit\<close>

datatype visit_result =
    VisitSuccess string nat json string
  | VisitFailure string json string

definition visitCustomUrl_try :: "json \<Rightarrow> options \<Rightarrow> page_env \<Rightarrow> (string \<times> string) list io" where
  "visitCustomUrl_try url opts env =
     andThen (call (SetUserAgent user_agent) (on_setUserAgent env)) (\<lambda>_.
     andThen (if truthy (headers opts)
              then call (SetExtraHTTPHeaders (headers opts)) (on_setExtraHTTPHeaders env)
              else skip) (\<lambda>_.
     andThen (if truthy (viewport opts)
              then call (SetViewport (viewport opts)) (on_setViewport env)
              else skip) (\<lambda>_.
     andThen (call (Goto url (goto_waitUntil opts) (goto_timeout opts)) (on_goto env)) (\<lambda>_.
     andThen (delay (initial_delay opts)) (\<lambda>_.
     andThen (call Title (on_title env)) (\<lambda>title.
     andThen (if is_challenge title then delay (challenge_delay opts) else skip) (\<lambda>_.
     andThen (case additionalWait opts of
                None \<Rightarrow> skip
              | Some ms \<Rightarrow> if truthy (Some ms) then delay ms else skip) (\<lambda>_.
     andThen (if truthy (executeScript opts)
              then call (Evaluate (executeScript opts)) (on_evaluate env)
              else skip) (\<lambda>_.
     call Cookies (on_cookies env))))))))))"

text \<open>
  \<open>now\<close> is what \<^verbatim>\<open>new Date().toISOString()\<close> returns when the result object is
  built.
\<close>

definition visitCustomUrl ::
  "nat option \<Rightarrow> json \<Rightarrow> options \<Rightarrow> page_env \<Rightarrow> string \<Rightarrow> visit_result promise \<times> event list" where
  "visitCustomUrl b url opts env now =
     (case b of
        None \<Rightarrow> (Rejected null_browser, [])
      | Some h \<Rightarrow>
          (case on_newPage env of
             Throws m \<Rightarrow> (Rejected m, [NewPage])
           | Resolves u \<Rightarrow>
               (case visitCustomUrl_try url opts env of
                  (r, tr) \<Rightarrow>
                    (case on_close env of
                       Resolves u' \<Rightarrow>
                         (Fulfilled
                            (case r of
                               Inr cs \<Rightarrow> VisitSuccess (cookieString cs) (length cs) url now
                             | Inl m \<Rightarrow> VisitFailure m url now),
                          NewPage # tr @ [ClosePage])
                     | Throws m \<Rightarrow> (Rejected m, NewPage # tr @ [ClosePage])))))"

section \<open>The collector service\<close>

text \<open>
  \<^verbatim>\<open>this.cookies\<close> is one mutable object, created by the constructor and never
  reassigned; \<^verbatim>\<open>getCookies()\<close> hands out that very object.  Since what a caller
  can see through it depends on this sharing, objects live in a store and the
  service holds a reference.  The cookie strings and the time stamp are
  \<^verbatim>\<open>null\<close> (\<open>None\<close>) or a string.
\<close>

record cookie_obj =
  animepahe :: "string option"
  paheWin :: "string option"
  kiwik :: "string option"
  lastUpdated :: "string option"

record service =
  browser :: "nat option"
  cookies :: nat
  isCollecting :: bool
  collectionInterval :: "nat option"

datatype site = Animepahe | PaheWin | Kiwik

text \<open>
  The three promises handed to \<^verbatim>\<open>Promise.allSettled\<close>: none while no cycle
  runs, otherwise pending or settled.
\<close>

datatype job = NoJob | InFlight | Settled "string option promise"

text \<open>
  Besides the store and the service object, the world has what the runtime and the
  browser library keep: the promises of the running cycle, the interval timers
  that are armed and the browser processes that are open.
\<close>

record world =
  heap :: "nat \<Rightarrow> cookie_obj"
  svc :: service
  jobs :: "site \<Rightarrow> job"
  active_timers :: "nat set"
  open_browsers :: "nat set"

definition constructor :: world where
  "constructor =
     \<lparr> heap = (\<lambda>r. \<lparr> animepahe = None, paheWin = None, kiwik = None, lastUpdated = None \<rparr>),
       svc = \<lparr> browser = None, cookies = 0, isCollecting = False, collectionInterval = None \<rparr>,
       jobs = (\<lambda>x. NoJob),
       active_timers = {},
       open_browsers = {} \<rparr>"

definition getCookies :: "world \<Rightarrow> nat" where
  "getCookies w = cookies (svc w)"

text \<open>The object behind \<^verbatim>\<open>this.cookies\<close> as it stands in a world.\<close>

definition store :: "world \<Rightarrow> cookie_obj" where
  "store w = heap w (cookies (svc w))"

fun record_of :: "site \<Rightarrow> cookie_obj \<Rightarrow> string option" where
  "record_of Animepahe c = animepahe c"
| "record_of PaheWin c = paheWin c"
| "record_of Kiwik c = kiwik c"

fun visit :: "site \<Rightarrow> nat option \<Rightarrow> page_env \<Rightarrow> string option promise \<times> event list" where
  "visit Animepahe = visitAnimepahe"
| "visit PaheWin = visitPaheWin"
| "visit Kiwik = visitKiwik"

subsection \<open>A collection cycle, one event-loop turn at a time\<close>

text \<open>
  JavaScript runs one turn of the event loop at a time, and a turn ends only at an
  \<^verbatim>\<open>await\<close>.  \<^verbatim>\<open>collectAllCookies\<close> has a single \<^verbatim>\<open>await\<close>, on
  \<^verbatim>\<open>Promise.allSettled\<close>, so it runs in two turns.

  The first turn tests and sets \<^verbatim>\<open>isCollecting\<close> and calls the three visit
  functions; each runs up to its \<^verbatim>\<open>await this.browser.newPage()\<close>, which throws
  at once when there is no browser.  The result tells whether the cycle was
  started; the function's promise resolves to \<^verbatim>\<open>undefined\<close> in both cases.
\<close>

definition collectAllCookies_begin :: "world \<Rightarrow> bool \<times> world" where
  "collectAllCookies_begin w =
     (if isCollecting (svc w) then (False, w)
      else (True,
            w\<lparr> svc := (svc w)\<lparr> isCollecting := True \<rparr>,
               jobs := (\<lambda>x. case browser (svc w) of
                                None \<Rightarrow> Settled (Rejected null_browser)
                              | Some h \<Rightarrow> InFlight) \<rparr>))"

text \<open>
  A visit in flight settles with what its function returns against the page it
  was given.  It touches no other promise and no field of the service.
\<close>

definition settle :: "site \<Rightarrow> page_env \<Rightarrow> world \<Rightarrow> world" where
  "settle x env w =
     (case jobs w x of
        InFlight \<Rightarrow> w\<lparr> jobs := (jobs w)(x := Settled (fst (visit x (browser (svc w)) env))) \<rparr>
      | NoJob \<Rightarrow> w
      | Settled r \<Rightarrow> w)"

text \<open>
  \<^verbatim>\<open>result.status === 'fulfilled' && result.value\<close>: the record is replaced by a
  fulfilled, non-empty string and kept otherwise.
\<close>

fun merge :: "string option promise \<Rightarrow> string option \<Rightarrow> string option" where
  "merge (Fulfilled (Some s)) old = (if s \<noteq> [] then Some s else old)"
| "merge (Fulfilled None) old = old"
| "merge (Rejected m) old = old"

text \<open>
  The second turn runs once all three promises have settled: the three
  assignments, the stamp and, in the \<^verbatim>\<open>finally\<close>, the reset of the flag, with no
  \<^verbatim>\<open>await\<close> in between.  \<^verbatim>\<open>Promise.allSettled\<close> never rejects and nothing
  after it throws, so the \<^verbatim>\<open>catch\<close> is never entered.  \<open>now\<close> is what
  \<^verbatim>\<open>new Date().toISOString()\<close> returns in this turn.
\<close>

definition collectAllCookies_finish :: "string \<Rightarrow> world \<Rightarrow> world" where
  "collectAllCookies_finish now w =
     (case (jobs w Animepahe, jobs w PaheWin, jobs w Kiwik) of
        (Settled animepaheResult, Settled paheWinResult, Settled kiwikResult) \<Rightarrow>
          w\<lparr> heap := (heap w)(cookies (svc w) :=
                 \<lparr> animepahe = merge animepaheResult (animepahe (store w)),
                   paheWin = merge paheWinResult (paheWin (store w)),
                   kiwik = merge kiwikResult (kiwik (store w)),
                   lastUpdated = Some now \<rparr>),
             svc := (svc w)\<lparr> isCollecting := False \<rparr>,
             jobs := (\<lambda>x. NoJob) \<rparr>
      | _ \<Rightarrow> w)"

text \<open>A whole cycle with nothing else in between.\<close>

definition collectAllCookies :: "(site \<Rightarrow> page_env) \<Rightarrow> string \<Rightarrow> world \<Rightarrow> world" where
  "collectAllCookies envs now w =
     (case collectAllCookies_begin w of
        (False, w') \<Rightarrow> w'
      | (True, w') \<Rightarrow>
          collectAllCookies_finish now
            (settle Kiwik (envs Kiwik)
              (settle PaheWin (envs PaheWin)
                (settle Animepahe (envs Animepahe) w'))))"

subsection \<open>Start-up and shutdown\<close>

text \<open>
  \<^verbatim>\<open>init\<close> after \<^verbatim>\<open>puppeteer.launch\<close> has resolved with browser \<open>b\<close>: the handle
  is stored and the start-up cycle begins.  Once that cycle is over, \<^verbatim>\<open>init\<close>
  arms the interval timer \<open>t\<close>.
\<close>

definition init_launched :: "nat \<Rightarrow> world \<Rightarrow> world" where
  "init_launched b w =
     snd (collectAllCookies_begin
            (w\<lparr> svc := (svc w)\<lparr> browser := Some b \<rparr>,
                open_browsers := insert b (open_browsers w) \<rparr>))"

definition init_scheduled :: "nat \<Rightarrow> world \<Rightarrow> world" where
  "init_scheduled t w =
     w\<lparr> svc := (svc w)\<lparr> collectionInterval := Some t \<rparr>,
        active_timers := insert t (active_timers w) \<rparr>"

text \<open>
  The two library calls of \<^verbatim>\<open>destroy\<close>.  Node's \<^verbatim>\<open>clearInterval\<close> disarms the
  timer and does nothing to one that is not armed.  puppeteer's
  \<^verbatim>\<open>browser.close()\<close> ends the browser process when it resolves; whether it
  resolves or throws in a given call is decided by the library, so it is a
  parameter of \<^verbatim>\<open>destroy\<close>, and a throw makes \<^verbatim>\<open>destroy\<close> reject.  Both
  tests are on objects, which are truthy unless \<^verbatim>\<open>null\<close>.  \<^verbatim>\<open>destroy\<close>
  yields its promise, the library calls it made, and the world it leaves.
\<close>

datatype library_call = ClearInterval nat | BrowserClose nat

definition clearInterval :: "nat \<Rightarrow> world \<Rightarrow> world" where
  "clearInterval t w = w\<lparr> active_timers := active_timers w - {t} \<rparr>"

definition browser_close :: "nat \<Rightarrow> world \<Rightarrow> world" where
  "browser_close b w = w\<lparr> open_browsers := open_browsers w - {b} \<rparr>"

definition destroy ::
  "unit outcome \<Rightarrow> world \<Rightarrow> unit promise \<times> library_call list \<times> world" where
  "destroy closing w =
     (case (case collectionInterval (svc w) of
              Some t \<Rightarrow> ([ClearInterval t], clearInterval t w)
            | None \<Rightarrow> ([], w)) of
        (calls, w1) \<Rightarrow>
          (case browser (svc w1) of
             Some b \<Rightarrow>
               (case closing of
                  Resolves u \<Rightarrow> (Fulfilled (), calls @ [BrowserClose b], browser_close b w1)
                | Throws m \<Rightarrow> (Rejected m, calls @ [BrowserClose b], w1))
           | None \<Rightarrow> (Fulfilled (), calls, w1)))"

section \<open>The routes\<close>

text \<open>A response is its HTTP status and the JSON body passed to \<^verbatim>\<open>res.json\<close>.\<close>

datatype response = Response nat json

fun status_of :: "response \<Rightarrow> nat" where
  "status_of (Response st b) = st"

text \<open>A \<^verbatim>\<open>null\<close>-or-string field as a JSON value.\<close>

fun js :: "string option \<Rightarrow> json" where
  "js None = JNull"
| "js (Some s) = JStr s"

subsection \<open>GET /\<close>

definition not_yet_collected :: response where
  "not_yet_collected =
     Response 503
       (JObj [(''error'', JStr ''Cookies not yet collected. Please try again in a few moments.''),
              (''status'', JStr ''collecting'')])"

definition snapshot_body :: "cookie_obj \<Rightarrow> json" where
  "snapshot_body c =
     JObj [(''success'', JBool True),
           (''cookies'', JObj [(''animepahe'', js (animepahe c)),
                               (''pahewin'', js (paheWin c)),
                               (''kiwik'', js (kiwik c))]),
           (''lastUpdated'', js (lastUpdated c))]"

definition router_get :: "world \<Rightarrow> response" where
  "router_get w =
     (let c = heap w (getCookies w)
      in if \<not> truthy (Some (js (lastUpdated c))) then not_yet_collected
         else Response 200 (snapshot_body c))"

subsection \<open>POST /refresh\<close>

definition already_in_progress :: response where
  "already_in_progress = Response 429 (JObj [(''error'', JStr ''Collection already in progress'')])"

definition refresh_triggered :: "string \<Rightarrow> response" where
  "refresh_triggered now =
     Response 200 (JObj [(''success'', JBool True),
                         (''message'', JStr ''Cookie refresh triggered''),
                         (''timestamp'', JStr now)])"

text \<open>
  The handler does not await \<^verbatim>\<open>collectAllCookies()\<close>: the call runs the first
  turn of the cycle and the response is sent right after it.
\<close>

definition router_post_refresh :: "string \<Rightarrow> world \<Rightarrow> response \<times> world" where
  "router_post_refresh now w =
     (if isCollecting (svc w) then (already_in_progress, w)
      else (refresh_triggered now, snd (collectAllCookies_begin w)))"

subsection \<open>POST /create\<close>

text \<open>
  \<^verbatim>\<open>new URL(x)\<close> is the platform's URL parser.  It is a parameter: \<open>protocol_of x\<close>
  is \<open>None\<close> when the constructor throws and the \<^verbatim>\<open>protocol\<close> of the parsed
  address otherwise.
\<close>

definition isValidUrl :: "(json \<Rightarrow> string option) \<Rightarrow> json \<Rightarrow> bool" where
  "isValidUrl protocol_of x = (case protocol_of x of Some p \<Rightarrow> True | None \<Rightarrow> False)"

definition bad_request :: "string \<Rightarrow> response" where
  "bad_request msg = Response 400 (JObj [(''error'', JStr msg)])"

definition service_busy :: response where
  "service_busy = Response 429 (JObj [(''error'', JStr ''Service is busy, please try again later'')])"

definition internal_error :: response where
  "internal_error = Response 500 (JObj [(''error'', JStr ''Internal server error'')])"

fun create_reply :: "visit_result promise \<Rightarrow> response" where
  "create_reply (Fulfilled (VisitSuccess cs n url ts)) =
     Response 200 (JObj [(''success'', JBool True), (''cookies'', JStr cs),
                         (''cookieCount'', JNum (real n)), (''url'', url),
                         (''timestamp'', JStr ts)])"
| "create_reply (Fulfilled (VisitFailure m url ts)) =
     Response 400 (JObj [(''success'', JBool False), (''error'', JStr m),
                         (''url'', url), (''timestamp'', JStr ts)])"
| "create_reply (Rejected m) = internal_error"

text \<open>
  The handler returns its response, the browser calls it made and the world it
  leaves.  The body has an optional \<^verbatim>\<open>url\<close> and an \<^verbatim>\<open>options\<close> object.
\<close>

definition router_post_create ::
  "(json \<Rightarrow> string option) \<Rightarrow> json option \<Rightarrow> options \<Rightarrow> page_env \<Rightarrow> string \<Rightarrow> world
     \<Rightarrow> response \<times> event list \<times> world" where
  "router_post_create protocol_of url opts env now w =
     (case url of
        None \<Rightarrow> (bad_request ''URL is required'', [], w)
      | Some u \<Rightarrow>
          if \<not> truthy (Some u) then (bad_request ''URL is required'', [], w)
          else if \<not> isValidUrl protocol_of u then (bad_request ''Invalid URL format'', [], w)
          else if protocol_of u \<noteq> Some ''https:''
            then (bad_request ''Only HTTPS URLs are allowed'', [], w)
          else if isCollecting (svc w) then (service_busy, [], w)
          else (case visitCustomUrl (browser (svc w)) u (validOptions opts) env now of
                  (result, tr) \<Rightarrow> (create_reply result, tr, w)))"

section \<open>Guarded triggers\<close>

text \<open>
  A cycle is triggered by \<^verbatim>\<open>init\<close> at start-up, by the interval callback and by
  POST /refresh.  The first two call \<^verbatim>\<open>await this.collectAllCookies()\<close> and get
  \<^verbatim>\<open>undefined\<close> back whatever the function did; the third gets the route's
  response.  Each trigger yields whether it started a cycle and what its caller
  receives.
\<close>

datatype trigger = Startup | Periodic | Manual

datatype received = Undefined | Reply response

definition guarded_trigger :: "string \<Rightarrow> trigger \<Rightarrow> world \<Rightarrow> (bool \<times> received) \<times> world" where
  "guarded_trigger now t w =
     (case t of
        Manual \<Rightarrow>
          (case router_post_refresh now w of
             (r, w') \<Rightarrow> ((\<not> isCollecting (svc w), Reply r), w'))
      | _ \<Rightarrow>
          (case collectAllCookies_begin w of
             (started, w') \<Rightarrow> ((started, Undefined), w')))"

text \<open>Triggers arriving one after the other, each in its own turn.\<close>

fun run_triggers :: "string \<Rightarrow> trigger list \<Rightarrow> world \<Rightarrow> (bool \<times> received) list \<times> world" where
  "run_triggers now [] w = ([], w)"
| "run_triggers now (t # ts) w =
     (case guarded_trigger now t w of
        (r, w') \<Rightarrow> (case run_triggers now ts w' of (rs, w'') \<Rightarrow> (r # rs, w'')))"

section \<open>Turns of the event loop\<close>

text \<open>
  Everything that can happen to the service, one turn each.  \<open>turn\<close> gives the
  world after the turn; what a handler replies is given by its own function.
\<close>

datatype action =
    Launched nat
  | Scheduled nat
  | Trigger string trigger
  | Settle site page_env
  | Finish string
  | GetRoot
  | Create "json option" options page_env string
  | Destroy "unit outcome"

fun turn :: "(json \<Rightarrow> string option) \<Rightarrow> action \<Rightarrow> world \<Rightarrow> world" where
  "turn protocol_of (Launched b) w = init_launched b w"
| "turn protocol_of (Scheduled t) w = init_scheduled t w"
| "turn protocol_of (Trigger now t) w = snd (guarded_trigger now t w)"
| "turn protocol_of (Settle x env) w = settle x env w"
| "turn protocol_of (Finish now) w = collectAllCookies_finish now w"
| "turn protocol_of GetRoot w = w"
| "turn protocol_of (Create url opts env now) w =
     snd (snd (router_post_create protocol_of url opts env now w))"
| "turn protocol_of (Destroy closing) w = snd (snd (destroy closing w))"

section \<open>Vocabulary of the properties\<close>

text \<open>
  The bound that the specification's table gives for the headers: a flat string
  map, that is, an object all of whose values are strings.
\<close>

fun spec_is_string :: "json \<Rightarrow> bool" where
  "spec_is_string (JStr s) = True"
| "spec_is_string v = False"

fun spec_flat_string_map :: "json option \<Rightarrow> bool" where
  "spec_flat_string_map (Some (JObj kvs)) = list_all (\<lambda>kv. spec_is_string (snd kv)) kvs"
| "spec_flat_string_map v = False"

text \<open>What the route's own test on headers and viewport admits: any array or object.\<close>

fun is_object :: "json option \<Rightarrow> bool" where
  "is_object (Some (JArr xs)) = True"
| "is_object (Some (JObj kvs)) = True"
| "is_object v = False"

text \<open>A busy error as a caller can tell it: a reply with status 429.\<close>

fun spec_BusyError :: "received \<Rightarrow> bool" where
  "spec_BusyError (Reply r) = (status_of r = 429)"
| "spec_BusyError Undefined = False"

text \<open>What a trigger's caller gets when it starts the cycle, and when it does not.\<close>

fun accepted :: "string \<Rightarrow> trigger \<Rightarrow> bool \<times> received" where
  "accepted now Manual = (True, Reply (refresh_triggered now))"
| "accepted now t = (True, Undefined)"

fun rejected :: "trigger \<Rightarrow> bool \<times> received" where
  "rejected Manual = (False, Reply already_in_progress)"
| "rejected t = (False, Undefined)"

fun settled :: "job \<Rightarrow> bool" where
  "settled (Settled r) = True"
| "settled j = False"

text \<open>A run of turns.\<close>

definition run :: "(json \<Rightarrow> string option) \<Rightarrow> action list \<Rightarrow> world \<Rightarrow> world" where
  "run protocol_of as w = foldl (\<lambda>v a. turn protocol_of a v) w as"

subsection \<open>Concrete inputs\<close>

definition no_options :: options where
  "no_options =
     \<lparr> timeout = None, waitUntil = None, initialWait = None, cloudflareWait = None,
       additionalWait = None, headers = None, viewport = None, executeScript = None \<rparr>"

text \<open>\<^verbatim>\<open>{timeout: 999999, waitUntil: "load"}\<close>\<close>

definition long_timeout_load :: options where
  "long_timeout_load =
     no_options\<lparr> timeout := Some (JNum 999999), waitUntil := Some (JStr ''load'') \<rparr>"

text \<open>
  \<^verbatim>\<open>{timeout: 999999, waitUntil: "load", initialWait: 1000, cloudflareWait: 90000,
  headers: {"accept-language": "en"}}\<close>
\<close>

definition two_out_of_bounds :: options where
  "two_out_of_bounds =
     long_timeout_load\<lparr> initialWait := Some (JNum 1000), cloudflareWait := Some (JNum 90000),
                         headers := Some (JObj [(''accept-language'', JStr ''en'')]) \<rparr>"

text \<open>\<^verbatim>\<open>{initialWait: 0, cloudflareWait: 0, additionalWait: 0}\<close>\<close>

definition zero_waits :: options where
  "zero_waits =
     no_options\<lparr> initialWait := Some (JNum 0), cloudflareWait := Some (JNum 0),
                 additionalWait := Some (JNum 0) \<rparr>"

text \<open>\<^verbatim>\<open>{headers: {"a": {"b": "c"}}}\<close>\<close>

definition nested_headers :: options where
  "nested_headers =
     no_options\<lparr> headers := Some (JObj [(''a'', JObj [(''b'', JStr ''c'')])]) \<rparr>"

text \<open>A page on which every call resolves, and one whose navigation times out.\<close>

definition page_ok :: page_env where
  "page_ok =
     \<lparr> on_newPage = Resolves (), on_setUserAgent = Resolves (),
       on_setExtraHTTPHeaders = Resolves (), on_setViewport = Resolves (),
       on_goto = Resolves (), on_title = Resolves ''Example Domain'',
       on_evaluate = Resolves (), on_cookies = Resolves [(''sid'', ''42'')],
       on_close = Resolves () \<rparr>"

definition page_timeout :: page_env where
  "page_timeout = page_ok\<lparr> on_goto := Throws ''Navigation timeout of 60000 ms exceeded'' \<rparr>"

text \<open>A page that yields another cookie; a cycle in which only Animepahe times out.\<close>

definition page_fresh :: page_env where
  "page_fresh = page_ok\<lparr> on_cookies := Resolves [(''sid'', ''43''), (''theme'', ''dark'')] \<rparr>"

fun one_timeout :: "site \<Rightarrow> page_env" where
  "one_timeout Animepahe = page_timeout"
| "one_timeout PaheWin = page_fresh"
| "one_timeout Kiwik = page_fresh"

definition page_refused :: page_env where
  "page_refused = page_ok\<lparr> on_newPage := Throws ''Protocol error: Target closed'' \<rparr>"

text \<open>The service while its start-up cycle runs, and after that cycle.\<close>

definition starting :: world where
  "starting = init_launched 1 constructor"

definition serving :: world where
  "serving =
     init_scheduled 7
       (collectAllCookies_finish ''2024-01-01T00:00:00.000Z''
          (settle Kiwik page_ok (settle PaheWin page_ok (settle Animepahe page_ok starting))))"

text \<open>
  The service after start-up, timer armed, once a POST /refresh has started a
  cycle; and the same after a first \<^verbatim>\<open>destroy\<close> whose close resolved.
\<close>

definition refreshing :: world where
  "refreshing = snd (router_post_refresh ''2024-01-01T00:29:30.000Z'' serving)"


text \<open>The start-up cycle with its three visits settled, one of them failed.\<close>

definition startup_settled :: world where
  "startup_settled =
     settle Kiwik page_fresh (settle PaheWin page_fresh (settle Animepahe page_timeout starting))"

fun startup_results :: "site \<Rightarrow> string option promise" where
  "startup_results Animepahe = Fulfilled None"
| "startup_results PaheWin = Fulfilled (Some ''sid=43; theme=dark'')"
| "startup_results Kiwik = Fulfilled (Some ''sid=43; theme=dark'')"

text \<open>A stand-in for the URL parser that knows two addresses.\<close>

fun two_urls :: "json \<Rightarrow> string option" where
  "two_urls (JStr s) =
     (if s = ''https://example.com'' then Some ''https:''
      else if s = ''http://example.com'' then Some ''http:''
      else None)"
| "two_urls v = None"

section \<open>Auxiliary facts\<close>

subsection \<open>The route's guards\<close>

lemma timeout_guard_iff: "timeout_guard v = num_in_left_open 0 120000 v"
  by (cases "(0::real, 120000::real, v)" rule: num_in_left_open.cases)
     (auto simp: timeout_guard_def)

lemma wait_guard_iff: "wait_guard hi v = (num_in_closed 0 hi v \<and> v \<noteq> Some (JNum 0))"
  by (cases "(0::real, hi, v)" rule: num_in_closed.cases)
     (auto simp: wait_guard_def)

lemma object_guard_iff: "object_guard v = is_object v"
  by (cases v rule: is_object.cases) (auto simp: object_guard_def)

lemma waitUntil_guard_iff: "waitUntil_guard v = (v \<in> set waitUntil_modes)"
  by (auto simp: waitUntil_guard_def waitUntil_modes_def)

lemma guard_truthy:
  "timeout_guard v \<Longrightarrow> truthy v"
  "waitUntil_guard v \<Longrightarrow> truthy v"
  "wait_guard hi v \<Longrightarrow> truthy v"
  by (simp_all add: timeout_guard_def waitUntil_guard_def wait_guard_def)

lemma or_default_keep_if:
  assumes "g \<Longrightarrow> truthy v"
  shows "or_default (keep_if g v) d = (case keep_if g v of None \<Rightarrow> d | Some x \<Rightarrow> x)"
proof (cases g)
  case True
  with assms have "truthy v" by simp
  then obtain x where "v = Some x" by (cases v) simp_all
  with True \<open>truthy v\<close> show ?thesis by (simp add: keep_if_def)
next
  case False
  then show ?thesis by (simp add: keep_if_def)
qed

subsection \<open>Traces of a visit\<close>

lemma call_trace: "snd (call ev out) = [ev]"
  by (cases out) (simp_all add: call_def)

lemma andThen_avoids:
  assumes "e \<notin> set (snd m)" and "\<And>v. e \<notin> set (snd (k v))"
  shows "e \<notin> set (snd (andThen m k))"
proof (cases m)
  case (Pair r tr)
  show ?thesis
  proof (cases r)
    case (Inl msg)
    with Pair assms(1) show ?thesis by (simp add: andThen_def)
  next
    case (Inr v)
    obtain r' tr' where k: "k v = (r', tr')" by (cases "k v")
    from assms(2)[of v] k have "e \<notin> set tr'" by simp
    with Pair Inr assms(1) k show ?thesis by (simp add: andThen_def)
  qed
qed

lemma visitSite_try_no_close: "ClosePage \<notin> set (snd (visitSite_try url env))"
  unfolding visitSite_try_def
  by (intro andThen_avoids) (simp_all add: call_trace delay_def skip_def)

lemma visitSite_try_no_newPage: "NewPage \<notin> set (snd (visitSite_try url env))"
  unfolding visitSite_try_def
  by (intro andThen_avoids) (simp_all add: call_trace delay_def skip_def)

lemma visitCustomUrl_try_no_close: "ClosePage \<notin> set (snd (visitCustomUrl_try url opts env))"
  unfolding visitCustomUrl_try_def
  by (intro andThen_avoids) (simp_all add: call_trace delay_def skip_def split: option.split)

lemma visitCustomUrl_try_no_newPage: "NewPage \<notin> set (snd (visitCustomUrl_try url opts env))"
  unfolding visitCustomUrl_try_def
  by (intro andThen_avoids) (simp_all add: call_trace delay_def skip_def split: option.split)

lemma visitCustomUrl_trace:
  "snd (visitCustomUrl b url opts env now) =
     (case b of
        None \<Rightarrow> []
      | Some h \<Rightarrow>
          (case on_newPage env of
             Throws m \<Rightarrow> [NewPage]
           | Resolves u \<Rightarrow> NewPage # snd (visitCustomUrl_try url opts env) @ [ClosePage]))"
  by (simp add: visitCustomUrl_def split: option.split outcome.split prod.split)

lemma visitSite_trace:
  "snd (visitSite b url env) =
     (case b of
        None \<Rightarrow> []
      | Some h \<Rightarrow>
          (case on_newPage env of
             Throws m \<Rightarrow> [NewPage]
           | Resolves u \<Rightarrow> NewPage # snd (visitSite_try url env) @ [ClosePage]))"
  by (simp add: visitSite_def split: option.split outcome.split prod.split)

lemma visit_is_visitSite: "\<exists>url. visit x = (\<lambda>b env. visitSite b url env)"
  by (cases x) (auto simp: visitAnimepahe_def visitPaheWin_def visitKiwik_def fun_eq_iff)

subsection \<open>What each turn does to the store\<close>

lemma begin_store: "store (snd (collectAllCookies_begin w)) = store w"
  by (simp add: collectAllCookies_begin_def store_def)

lemma settle_store: "store (settle x env w) = store w"
  by (simp add: store_def settle_def split: job.split)

lemma settle_other: "y \<noteq> x \<Longrightarrow> jobs (settle x env w) y = jobs w y"
  by (simp add: settle_def split: job.split)

lemma destroy_store: "store (snd (snd (destroy c w))) = store w"
  by (simp add: store_def destroy_def clearInterval_def browser_close_def
        split: option.split outcome.split)

lemma create_world: "snd (snd (router_post_create p url opts env now w)) = w"
  by (simp add: router_post_create_def split: option.split prod.split)

lemma trigger_store: "store (snd (guarded_trigger now t w)) = store w"
  by (cases t)
     (simp_all add: guarded_trigger_def router_post_refresh_def begin_store split: prod.split,
      auto simp: collectAllCookies_begin_def store_def)

lemma launched_store: "store (init_launched b w) = store w"
  by (simp add: init_launched_def collectAllCookies_begin_def store_def)

lemma scheduled_store: "store (init_scheduled t w) = store w"
  by (simp add: init_scheduled_def store_def)

lemma turn_store: "(\<forall>now. a \<noteq> Finish now) \<Longrightarrow> store (turn p a w) = store w"
  by (cases a)
     (simp_all add: launched_store scheduled_store trigger_store settle_store
        create_world destroy_store)

lemma run_store:
  "\<forall>a \<in> set as. \<forall>now. a \<noteq> Finish now \<Longrightarrow> store (run p as w) = store w"
  unfolding run_def by (induction as arbitrary: w) (simp_all add: turn_store)

lemma finish_store:
  "jobs w Animepahe = Settled ra \<Longrightarrow> jobs w PaheWin = Settled rp \<Longrightarrow>
   jobs w Kiwik = Settled rk \<Longrightarrow>
   store (collectAllCookies_finish now w) =
     \<lparr> animepahe = merge ra (animepahe (store w)),
       paheWin = merge rp (paheWin (store w)),
       kiwik = merge rk (kiwik (store w)),
       lastUpdated = Some now \<rparr>"
  by (simp add: collectAllCookies_finish_def store_def)

lemma finish_not_ready: "\<not> settled (jobs w x) \<Longrightarrow> collectAllCookies_finish now w = w"
  by (cases x; cases "jobs w Animepahe"; cases "jobs w PaheWin"; cases "jobs w Kiwik")
     (simp_all add: collectAllCookies_finish_def)

lemma finish_twice:
  "collectAllCookies_finish now' (collectAllCookies_finish now w) =
   collectAllCookies_finish now w"
  by (cases "jobs w Animepahe"; cases "jobs w PaheWin"; cases "jobs w Kiwik")
     (simp_all add: collectAllCookies_finish_def)

lemma cycle_store:
  "\<not> isCollecting (svc w) \<Longrightarrow>
   store (collectAllCookies envs now w) =
     \<lparr> animepahe = merge (fst (visit Animepahe (browser (svc w)) (envs Animepahe)))
                     (animepahe (store w)),
       paheWin = merge (fst (visit PaheWin (browser (svc w)) (envs PaheWin)))
                   (paheWin (store w)),
       kiwik = merge (fst (visit Kiwik (browser (svc w)) (envs Kiwik))) (kiwik (store w)),
       lastUpdated = Some now \<rparr>"
  by (cases "browser (svc w)")
     (simp_all add: collectAllCookies_def collectAllCookies_begin_def settle_def
        collectAllCookies_finish_def store_def visitAnimepahe_def visitPaheWin_def
        visitKiwik_def visitSite_def)

lemma merge_cases:
  "merge r old =
     (case r of
        Fulfilled None \<Rightarrow> old
      | Fulfilled (Some s) \<Rightarrow> if s \<noteq> [] then Some s else old
      | Rejected m \<Rightarrow> old)"
  by (cases "(r, old)" rule: merge.cases) simp_all

subsection \<open>Triggers\<close>

lemma busy_trigger: "isCollecting (svc w) \<Longrightarrow> guarded_trigger now t w = (rejected t, w)"
  by (cases t)
     (simp_all add: guarded_trigger_def router_post_refresh_def collectAllCookies_begin_def)

lemma busy_triggers: "isCollecting (svc w) \<Longrightarrow> run_triggers now ts w = (map rejected ts, w)"
  by (induction ts) (simp_all add: busy_trigger)

lemma idle_trigger:
  "\<not> isCollecting (svc w) \<Longrightarrow>
     guarded_trigger now t w = (accepted now t, snd (collectAllCookies_begin w))
     \<and> isCollecting (svc (snd (collectAllCookies_begin w)))"
  by (cases t)
     (simp_all add: guarded_trigger_def router_post_refresh_def collectAllCookies_begin_def)

subsection \<open>The concrete worlds\<close>

lemma starting_facts:
  "isCollecting (svc starting)" "browser (svc starting) = Some 1"
  "jobs starting = (\<lambda>x. InFlight)" "store starting = store constructor"
  "collectionInterval (svc starting) = None"
  by (simp_all add: starting_def init_launched_def collectAllCookies_begin_def
        constructor_def store_def)

lemma visitSite_page_ok: "fst (visitSite (Some h) url page_ok) = Fulfilled (Some ''sid=42'')"
  by (simp add: visitSite_def visitSite_try_def page_ok_def andThen_def call_def delay_def
        skip_def is_challenge_def cookieString_def)

lemma visitSite_page_timeout: "fst (visitSite (Some h) url page_timeout) = Fulfilled None"
  by (simp add: visitSite_def visitSite_try_def page_timeout_def page_ok_def andThen_def
        call_def delay_def skip_def)

lemma visits_page_ok:
  "fst (visitAnimepahe (Some h) page_ok) = Fulfilled (Some ''sid=42'')"
  "fst (visitPaheWin (Some h) page_ok) = Fulfilled (Some ''sid=42'')"
  "fst (visitKiwik (Some h) page_ok) = Fulfilled (Some ''sid=42'')"
  by (simp_all add: visitAnimepahe_def visitPaheWin_def visitKiwik_def visitSite_page_ok)

lemma visits_page_timeout:
  "fst (visitAnimepahe (Some h) page_timeout) = Fulfilled None"
  "fst (visitPaheWin (Some h) page_timeout) = Fulfilled None"
  "fst (visitKiwik (Some h) page_timeout) = Fulfilled None"
  by (simp_all add: visitAnimepahe_def visitPaheWin_def visitKiwik_def visitSite_page_timeout)

lemma constructor_store:
  "store constructor = \<lparr> animepahe = None, paheWin = None, kiwik = None, lastUpdated = None \<rparr>"
  by (simp add: store_def constructor_def)

lemma settle_starting:
  "jobs (settle Kiwik ek (settle PaheWin ep (settle Animepahe ea starting))) =
     (\<lambda>x. Settled (fst (visit x (Some 1) (case x of Animepahe \<Rightarrow> ea | PaheWin \<Rightarrow> ep | Kiwik \<Rightarrow> ek))))"
proof
  fix x
  show "jobs (settle Kiwik ek (settle PaheWin ep (settle Animepahe ea starting))) x =
     Settled (fst (visit x (Some 1) (case x of Animepahe \<Rightarrow> ea | PaheWin \<Rightarrow> ep | Kiwik \<Rightarrow> ek)))"
    by (cases x) (simp_all add: settle_def starting_facts)
qed

lemma settle_starting_svc:
  "svc (settle Kiwik ek (settle PaheWin ep (settle Animepahe ea starting))) = svc starting"
  by (simp add: settle_def starting_facts)

lemma serving_facts:
  "store serving =
     \<lparr> animepahe = Some ''sid=42'', paheWin = Some ''sid=42'', kiwik = Some ''sid=42'',
       lastUpdated = Some ''2024-01-01T00:00:00.000Z'' \<rparr>"
  "isCollecting (svc serving) = False"
  "browser (svc serving) = Some 1"
  "collectionInterval (svc serving) = Some 7"
  "active_timers serving = {7}"
  "open_browsers serving = {1}"
  "jobs serving = (\<lambda>x. NoJob)"
proof -
  let ?w = "settle Kiwik page_ok (settle PaheWin page_ok (settle Animepahe page_ok starting))"
  have j: "jobs ?w = (\<lambda>x. Settled (Fulfilled (Some ''sid=42'')))"
  proof
    fix x
    show "jobs ?w x = Settled (Fulfilled (Some ''sid=42''))"
      by (cases x) (simp_all add: settle_starting visits_page_ok)
  qed
  have s: "store ?w = store constructor"
    by (simp add: settle_store starting_facts)
  note c = constructor_store
  have f: "store (collectAllCookies_finish ''2024-01-01T00:00:00.000Z'' ?w) =
     \<lparr> animepahe = Some ''sid=42'', paheWin = Some ''sid=42'', kiwik = Some ''sid=42'',
       lastUpdated = Some ''2024-01-01T00:00:00.000Z'' \<rparr>"
    by (simp add: finish_store [where ra = "Fulfilled (Some ''sid=42'')"
          and rp = "Fulfilled (Some ''sid=42'')" and rk = "Fulfilled (Some ''sid=42'')"] j s c)
  show "store serving =
     \<lparr> animepahe = Some ''sid=42'', paheWin = Some ''sid=42'', kiwik = Some ''sid=42'',
       lastUpdated = Some ''2024-01-01T00:00:00.000Z'' \<rparr>"
    unfolding serving_def by (simp add: scheduled_store f)
  have g: "collectAllCookies_finish ''2024-01-01T00:00:00.000Z'' ?w =
     ?w\<lparr> heap := (heap ?w)(cookies (svc ?w) :=
                 \<lparr> animepahe = merge (Fulfilled (Some ''sid=42'')) (animepahe (store ?w)),
                   paheWin = merge (Fulfilled (Some ''sid=42'')) (paheWin (store ?w)),
                   kiwik = merge (Fulfilled (Some ''sid=42'')) (kiwik (store ?w)),
                   lastUpdated = Some ''2024-01-01T00:00:00.000Z'' \<rparr>),
             svc := (svc ?w)\<lparr> isCollecting := False \<rparr>,
             jobs := (\<lambda>x. NoJob) \<rparr>"
    by (simp add: collectAllCookies_finish_def j)
  have sv: "svc ?w = svc starting" by (rule settle_starting_svc)
  have at: "active_timers ?w = {}" "open_browsers ?w = {1}"
    by (simp_all add: settle_def starting_facts starting_def init_launched_def
          collectAllCookies_begin_def constructor_def)
  show "isCollecting (svc serving) = False" "browser (svc serving) = Some 1"
    "collectionInterval (svc serving) = Some 7" "active_timers serving = {7}"
    "open_browsers serving = {1}" "jobs serving = (\<lambda>x. NoJob)"
    unfolding serving_def by (simp_all add: g init_scheduled_def sv starting_facts at)
qed

lemma visitSite_page_fresh:
  "fst (visitSite (Some h) url page_fresh) = Fulfilled (Some ''sid=43; theme=dark'')"
  by (simp add: visitSite_def visitSite_try_def page_fresh_def page_ok_def andThen_def call_def
        delay_def skip_def is_challenge_def cookieString_def)

lemma visits_page_fresh:
  "fst (visitAnimepahe (Some h) page_fresh) = Fulfilled (Some ''sid=43; theme=dark'')"
  "fst (visitPaheWin (Some h) page_fresh) = Fulfilled (Some ''sid=43; theme=dark'')"
  "fst (visitKiwik (Some h) page_fresh) = Fulfilled (Some ''sid=43; theme=dark'')"
  by (simp_all add: visitAnimepahe_def visitPaheWin_def visitKiwik_def visitSite_page_fresh)

lemma cycle_cookies: "cookies (svc (collectAllCookies envs now w)) = cookies (svc w)"
  by (simp add: collectAllCookies_def collectAllCookies_begin_def settle_def
        collectAllCookies_finish_def split: job.split)

lemma turn_cookies: "cookies (svc (turn p a w)) = cookies (svc w)"
proof (cases a)
  case (Trigger now t)
  then show ?thesis
    by (cases t)
       (simp_all add: guarded_trigger_def router_post_refresh_def collectAllCookies_begin_def)
next
  case (Finish now)
  then show ?thesis
    by (simp add: collectAllCookies_finish_def split: job.split)
qed (simp_all add: init_launched_def init_scheduled_def collectAllCookies_begin_def settle_def
       create_world destroy_def clearInterval_def browser_close_def
       split: job.split option.split outcome.split)

lemma startup_settled_facts:
  "jobs startup_settled Animepahe = Settled (startup_results Animepahe)"
  "jobs startup_settled PaheWin = Settled (startup_results PaheWin)"
  "jobs startup_settled Kiwik = Settled (startup_results Kiwik)"
  "store startup_settled = store constructor"
  by (simp_all add: startup_settled_def settle_starting visits_page_timeout visits_page_fresh
        settle_store starting_facts)

lemma refreshing_facts:
  "isCollecting (svc refreshing)"
  "browser (svc refreshing) = Some 1"
  "collectionInterval (svc refreshing) = Some 7"
  "active_timers refreshing = {7}"
  "open_browsers refreshing = {1}"
  "store refreshing = store serving"
  by (simp_all add: refreshing_def router_post_refresh_def begin_store serving_facts,
      simp_all add: collectAllCookies_begin_def serving_facts)


section \<open>Properties\<close>

subsection \<open>Single flight\<close>

text \<open>
  C1, as stated: every guarded trigger that arrives while a cycle runs receives a
  busy error.  After start-up the interval timer is armed.  When its callback
  fires while a cycle started by POST /refresh is running, the trigger starts
  nothing and changes nothing, but what its caller receives is \<^verbatim>\<open>undefined\<close>,
  as after a completed cycle, and not a busy error.
\<close>

theorem periodic_trigger_gets_no_busy_error:
  "isCollecting (svc refreshing)
   \<and> collectionInterval (svc refreshing) = Some 7
   \<and> 7 \<in> active_timers refreshing
   \<and> guarded_trigger ''2024-01-01T00:30:00.000Z'' Periodic refreshing =
       ((False, Undefined), refreshing)
   \<and> \<not> spec_BusyError (snd (fst (guarded_trigger ''2024-01-01T00:30:00.000Z'' Periodic refreshing)))"
  by (simp add: busy_trigger refreshing_facts)

text \<open>
  C1, amended.  While a cycle runs, no guarded trigger starts a cycle and none
  changes the world (nothing is queued, nothing is retried): POST /refresh is
  answered 429 at once, which is a busy error, and a start-up or interval trigger
  returns silently, which is none.  From the idle service, of any triggers
  arriving in a row exactly the first, which sets the flag, starts the cycle.
\<close>

theorem single_flight:
  "(isCollecting (svc w) \<longrightarrow> run_triggers now ts w = (map rejected ts, w))
   \<and> (\<not> isCollecting (svc w) \<longrightarrow>
        run_triggers now (t # ts) w =
          (accepted now t # map rejected ts, snd (collectAllCookies_begin w))
        \<and> isCollecting (svc (snd (collectAllCookies_begin w))))
   \<and> spec_BusyError (snd (rejected Manual))
   \<and> \<not> spec_BusyError (snd (rejected Periodic))
   \<and> \<not> spec_BusyError (snd (rejected Startup))"
proof (intro conjI impI)
  assume "isCollecting (svc w)"
  then show "run_triggers now ts w = (map rejected ts, w)" by (rule busy_triggers)
next
  assume idle: "\<not> isCollecting (svc w)"
  from idle_trigger [OF idle, of now t]
  have first: "guarded_trigger now t w = (accepted now t, snd (collectAllCookies_begin w))"
    and busy: "isCollecting (svc (snd (collectAllCookies_begin w)))" by simp_all
  from busy show "isCollecting (svc (snd (collectAllCookies_begin w)))" .
  from first busy_triggers [OF busy, of now ts]
  show "run_triggers now (t # ts) w =
          (accepted now t # map rejected ts, snd (collectAllCookies_begin w))" by simp
next
  show "spec_BusyError (snd (rejected Manual))" by (simp add: already_in_progress_def)
next
  show "\<not> spec_BusyError (snd (rejected Periodic))" by simp
next
  show "\<not> spec_BusyError (snd (rejected Startup))" by simp
qed

theorem single_flight_witness:
  "isCollecting (svc refreshing)
   \<and> run_triggers ''2024-01-01T00:30:00.000Z'' [Periodic, Manual, Periodic] refreshing =
       ([(False, Undefined), (False, Reply already_in_progress), (False, Undefined)], refreshing)
   \<and> \<not> isCollecting (svc serving)
   \<and> fst (run_triggers ''2024-01-01T00:30:00.000Z'' [Manual, Periodic, Manual] serving) =
       [(True, Reply (refresh_triggered ''2024-01-01T00:30:00.000Z'')),
        (False, Undefined), (False, Reply already_in_progress)]"
  using single_flight [of refreshing "''2024-01-01T00:30:00.000Z''" "[Periodic, Manual, Periodic]"]
        single_flight [of serving "''2024-01-01T00:30:00.000Z''" "[Periodic, Manual]" Manual]
  by (simp add: refreshing_facts serving_facts)

subsection \<open>A failed visit keeps the site's record\<close>

text \<open>
  C2.  When a cycle completes, the record of every site depends on that site's own
  result only: a fulfilled, non-empty cookie string is installed; a rejected visit,
  a visit that returned \<^verbatim>\<open>null\<close> and an empty cookie string leave the record
  exactly as it was before the cycle.  This holds for the completing turn with any
  three results, for a whole cycle run against any three pages, and no other turn
  touches a record.
\<close>

theorem failed_site_keeps_its_record:
  "(jobs w Animepahe = Settled (rs Animepahe) \<and> jobs w PaheWin = Settled (rs PaheWin)
      \<and> jobs w Kiwik = Settled (rs Kiwik) \<longrightarrow>
      record_of x (store (collectAllCookies_finish now w)) =
        (case rs x of
           Fulfilled None \<Rightarrow> record_of x (store w)
         | Fulfilled (Some s) \<Rightarrow> if s \<noteq> [] then Some s else record_of x (store w)
         | Rejected m \<Rightarrow> record_of x (store w)))
   \<and> (\<not> isCollecting (svc w) \<longrightarrow>
        record_of x (store (collectAllCookies envs now w)) =
          (case fst (visit x (browser (svc w)) (envs x)) of
             Fulfilled None \<Rightarrow> record_of x (store w)
           | Fulfilled (Some s) \<Rightarrow> if s \<noteq> [] then Some s else record_of x (store w)
           | Rejected m \<Rightarrow> record_of x (store w)))
   \<and> ((\<forall>t. a \<noteq> Finish t) \<longrightarrow> record_of x (store (turn p a w)) = record_of x (store w))"
proof (intro conjI impI)
  assume "jobs w Animepahe = Settled (rs Animepahe) \<and> jobs w PaheWin = Settled (rs PaheWin)
      \<and> jobs w Kiwik = Settled (rs Kiwik)"
  then have "store (collectAllCookies_finish now w) =
     \<lparr> animepahe = merge (rs Animepahe) (animepahe (store w)),
       paheWin = merge (rs PaheWin) (paheWin (store w)),
       kiwik = merge (rs Kiwik) (kiwik (store w)),
       lastUpdated = Some now \<rparr>"
    by (simp add: finish_store)
  then show "record_of x (store (collectAllCookies_finish now w)) =
        (case rs x of
           Fulfilled None \<Rightarrow> record_of x (store w)
         | Fulfilled (Some s) \<Rightarrow> if s \<noteq> [] then Some s else record_of x (store w)
         | Rejected m \<Rightarrow> record_of x (store w))"
    by (cases x) (simp_all add: merge_cases split: promise.split option.split)
next
  assume "\<not> isCollecting (svc w)"
  then show "record_of x (store (collectAllCookies envs now w)) =
          (case fst (visit x (browser (svc w)) (envs x)) of
             Fulfilled None \<Rightarrow> record_of x (store w)
           | Fulfilled (Some s) \<Rightarrow> if s \<noteq> [] then Some s else record_of x (store w)
           | Rejected m \<Rightarrow> record_of x (store w))"
    by (cases x) (simp_all add: cycle_store merge_cases split: promise.split option.split)
next
  assume "\<forall>t. a \<noteq> Finish t"
  then show "record_of x (store (turn p a w)) = record_of x (store w)"
    by (simp add: turn_store)
qed

theorem failed_site_keeps_its_record_witness:
  "jobs startup_settled Animepahe = Settled (startup_results Animepahe)
   \<and> jobs startup_settled PaheWin = Settled (startup_results PaheWin)
   \<and> jobs startup_settled Kiwik = Settled (startup_results Kiwik)
   \<and> record_of Animepahe (store startup_settled) = None
   \<and> record_of Animepahe (store (collectAllCookies_finish ''2024-01-01T00:01:00.000Z'' startup_settled)) =
       None
   \<and> \<not> isCollecting (svc serving)
   \<and> fst (visit Animepahe (browser (svc serving)) (one_timeout Animepahe)) = Fulfilled None
   \<and> record_of Animepahe (store serving) = Some ''sid=42''
   \<and> record_of Animepahe (store (collectAllCookies one_timeout ''2024-01-01T00:30:00.000Z'' serving)) =
       Some ''sid=42''
   \<and> record_of PaheWin (store (collectAllCookies one_timeout ''2024-01-01T00:30:00.000Z'' serving)) =
       Some ''sid=43; theme=dark''
   \<and> record_of Kiwik (store (turn two_urls (Settle Kiwik page_fresh) serving)) = Some ''sid=42''"
  using failed_site_keeps_its_record
          [of startup_settled startup_results Animepahe "''2024-01-01T00:01:00.000Z''" one_timeout
              GetRoot two_urls]
        failed_site_keeps_its_record
          [of serving startup_results Animepahe "''2024-01-01T00:30:00.000Z''" one_timeout
              GetRoot two_urls]
        failed_site_keeps_its_record
          [of serving startup_results PaheWin "''2024-01-01T00:30:00.000Z''" one_timeout
              GetRoot two_urls]
        failed_site_keeps_its_record
          [of serving startup_results Kiwik "''2024-01-01T00:30:00.000Z''" one_timeout
              "Settle Kiwik page_fresh" two_urls]
  by (simp add: serving_facts startup_settled_facts constructor_store visits_page_timeout
        visits_page_fresh)

subsection \<open>The stamp at the end of a cycle\<close>

text \<open>
  C3.  The turn that completes a cycle sets \<^verbatim>\<open>lastUpdated\<close> to the current time
  whatever the three results are, also when all three visits failed.  It runs only
  when all three visits have settled: while one is pending it does nothing.  A
  visit that settles, with a failure or not, leaves the other two as they are.  No
  other turn changes \<^verbatim>\<open>lastUpdated\<close>, and once the cycle has completed its
  completing turn does nothing more, so the stamp is set exactly once per cycle.
  A whole cycle started on the idle service ends with the stamp set.
\<close>

theorem lastUpdated_stamped_when_all_settled:
  "(jobs w Animepahe = Settled ra \<and> jobs w PaheWin = Settled rp \<and> jobs w Kiwik = Settled rk \<longrightarrow>
      lastUpdated (store (collectAllCookies_finish now w)) = Some now)
   \<and> (\<not> settled (jobs w x) \<longrightarrow> collectAllCookies_finish now w = w)
   \<and> (y \<noteq> x \<longrightarrow> jobs (settle x env w) y = jobs w y)
   \<and> ((\<forall>t. a \<noteq> Finish t) \<longrightarrow> lastUpdated (store (turn p a w)) = lastUpdated (store w))
   \<and> collectAllCookies_finish now' (collectAllCookies_finish now w) =
       collectAllCookies_finish now w
   \<and> (\<not> isCollecting (svc w) \<longrightarrow>
        lastUpdated (store (collectAllCookies envs now w)) = Some now)"
proof (intro conjI impI)
  assume "jobs w Animepahe = Settled ra \<and> jobs w PaheWin = Settled rp \<and> jobs w Kiwik = Settled rk"
  then show "lastUpdated (store (collectAllCookies_finish now w)) = Some now"
    by (simp add: finish_store)
next
  assume "\<not> settled (jobs w x)"
  then show "collectAllCookies_finish now w = w" by (rule finish_not_ready)
next
  assume "y \<noteq> x"
  then show "jobs (settle x env w) y = jobs w y" by (rule settle_other)
next
  assume "\<forall>t. a \<noteq> Finish t"
  then show "lastUpdated (store (turn p a w)) = lastUpdated (store w)"
    by (simp add: turn_store)
next
  show "collectAllCookies_finish now' (collectAllCookies_finish now w) =
       collectAllCookies_finish now w" by (rule finish_twice)
next
  assume "\<not> isCollecting (svc w)"
  then show "lastUpdated (store (collectAllCookies envs now w)) = Some now"
    by (simp add: cycle_store)
qed

theorem lastUpdated_stamped_when_all_settled_witness:
  "jobs startup_settled Animepahe = Settled (Fulfilled None)
   \<and> lastUpdated (store (collectAllCookies_finish ''2024-01-01T00:01:00.000Z'' startup_settled)) =
       Some ''2024-01-01T00:01:00.000Z''
   \<and> \<not> settled (jobs (settle Animepahe page_timeout starting) Kiwik)
   \<and> collectAllCookies_finish ''2024-01-01T00:00:10.000Z'' (settle Animepahe page_timeout starting) =
       settle Animepahe page_timeout starting
   \<and> lastUpdated (store (settle Animepahe page_timeout starting)) = None
   \<and> jobs (settle Animepahe page_timeout starting) PaheWin = InFlight
   \<and> lastUpdated (store (turn two_urls (Trigger ''2024-01-01T00:30:00.000Z'' Manual) serving)) =
       Some ''2024-01-01T00:00:00.000Z''
   \<and> \<not> isCollecting (svc serving)
   \<and> fst (visit Animepahe (browser (svc serving)) page_timeout) = Fulfilled None
   \<and> fst (visit PaheWin (browser (svc serving)) page_timeout) = Fulfilled None
   \<and> fst (visit Kiwik (browser (svc serving)) page_timeout) = Fulfilled None
   \<and> lastUpdated (store (collectAllCookies (\<lambda>x. page_timeout) ''2024-01-01T00:30:00.000Z'' serving)) =
       Some ''2024-01-01T00:30:00.000Z''"
proof -
  have pending: "\<not> settled (jobs (settle Animepahe page_timeout starting) Kiwik)"
    by (simp add: settle_def starting_facts)
  have idle: "\<not> isCollecting (svc serving)" by (simp add: serving_facts)
  show ?thesis
    using pending idle
      lastUpdated_stamped_when_all_settled
        [of startup_settled "Fulfilled None" "Fulfilled (Some ''sid=43; theme=dark'')"
            "Fulfilled (Some ''sid=43; theme=dark'')" "''2024-01-01T00:01:00.000Z''"
            Kiwik PaheWin page_timeout GetRoot two_urls "''2024-01-01T00:01:01.000Z''"
            "\<lambda>x. page_timeout"]
      lastUpdated_stamped_when_all_settled
        [of "settle Animepahe page_timeout starting" "Rejected []" "Rejected []" "Rejected []"
            "''2024-01-01T00:00:10.000Z''" Kiwik PaheWin page_timeout GetRoot two_urls]
      lastUpdated_stamped_when_all_settled
        [of starting "Rejected []" "Rejected []" "Rejected []"
            "''2024-01-01T00:00:10.000Z''" Animepahe PaheWin page_timeout GetRoot two_urls]
      lastUpdated_stamped_when_all_settled
        [of serving "Rejected []" "Rejected []" "Rejected []" "''2024-01-01T00:30:00.000Z''"
            Kiwik PaheWin page_timeout "Trigger ''2024-01-01T00:30:00.000Z'' Manual" two_urls
            "''2024-01-01T00:30:01.000Z''" "\<lambda>x. page_timeout"]
    by (simp add: serving_facts startup_settled_facts visits_page_timeout settle_store
          starting_facts constructor_store)
qed

subsection \<open>Validation field by field\<close>

text \<open>
  C4, as stated: every field outside its bound is dropped.  The bound of the
  headers is a flat string map, but the route only tests that the headers are an
  object: \<^verbatim>\<open>{"a": {"b": "c"}}\<close> is not a flat string map and is kept as it is.
\<close>

theorem nested_headers_are_kept:
  "\<not> spec_flat_string_map (headers nested_headers)
   \<and> headers (validOptions nested_headers) = Some (JObj [(''a'', JObj [(''b'', JStr ''c'')])])"
  by (simp add: nested_headers_def no_options_def validOptions_def keep_if_def object_guard_def)

text \<open>
  C4, amended.  The route decides each field on its own and never refuses the
  request because of an option.  The timeout is kept exactly when it is a number
  in (0, 120000], the load condition exactly when it is one of the four modes;
  a wait other than the number 0 is kept exactly when it is a number within its
  bound; headers and viewport are kept exactly when they are an object or an
  array, whatever is inside.  Every other field is dropped, and the visit then
  uses the built-in value for a dropped field and the given value for a kept one.
  With an https address and no cycle running, the visit is made whatever the
  options are.  For \<^verbatim>\<open>{timeout: 999999, waitUntil: "load"}\<close> the visit uses the
  default timeout 60000 and the load condition \<^verbatim>\<open>load\<close>.
\<close>

theorem validOptions_decides_each_field:
  "timeout (validOptions raw) =
     (if num_in_left_open 0 120000 (timeout raw) then timeout raw else None)
   \<and> waitUntil (validOptions raw) =
       (if waitUntil raw \<in> set waitUntil_modes then waitUntil raw else None)
   \<and> (initialWait raw \<noteq> Some (JNum 0) \<longrightarrow>
        initialWait (validOptions raw) =
          (if num_in_closed 0 30000 (initialWait raw) then initialWait raw else None))
   \<and> (cloudflareWait raw \<noteq> Some (JNum 0) \<longrightarrow>
        cloudflareWait (validOptions raw) =
          (if num_in_closed 0 60000 (cloudflareWait raw) then cloudflareWait raw else None))
   \<and> (additionalWait raw \<noteq> Some (JNum 0) \<longrightarrow>
        additionalWait (validOptions raw) =
          (if num_in_closed 0 30000 (additionalWait raw) then additionalWait raw else None))
   \<and> headers (validOptions raw) = (if is_object (headers raw) then headers raw else None)
   \<and> viewport (validOptions raw) = (if is_object (viewport raw) then viewport raw else None)
   \<and> goto_timeout (validOptions raw) =
       (case timeout (validOptions raw) of None \<Rightarrow> JNum 60000 | Some v \<Rightarrow> v)
   \<and> goto_waitUntil (validOptions raw) =
       (case waitUntil (validOptions raw) of None \<Rightarrow> JStr ''networkidle2'' | Some v \<Rightarrow> v)
   \<and> initial_delay (validOptions raw) =
       (case initialWait (validOptions raw) of None \<Rightarrow> JNum 5000 | Some v \<Rightarrow> v)
   \<and> challenge_delay (validOptions raw) =
       (case cloudflareWait (validOptions raw) of None \<Rightarrow> JNum 10000 | Some v \<Rightarrow> v)
   \<and> (truthy (Some u) \<and> protocol_of u = Some ''https:'' \<and> \<not> isCollecting (svc w) \<longrightarrow>
        router_post_create protocol_of (Some u) raw env now w =
          (create_reply (fst (visitCustomUrl (browser (svc w)) u (validOptions raw) env now)),
           snd (visitCustomUrl (browser (svc w)) u (validOptions raw) env now), w))
   \<and> goto_timeout (validOptions long_timeout_load) = JNum 60000
   \<and> goto_waitUntil (validOptions long_timeout_load) = JStr ''load''"
proof -
  have t: "timeout (validOptions raw) =
     (if num_in_left_open 0 120000 (timeout raw) then timeout raw else None)"
    by (simp add: validOptions_def keep_if_def timeout_guard_iff)
  have m: "waitUntil (validOptions raw) =
       (if waitUntil raw \<in> set waitUntil_modes then waitUntil raw else None)"
    by (simp add: validOptions_def keep_if_def waitUntil_guard_iff)
  have i: "initialWait (validOptions raw) =
          (if num_in_closed 0 30000 (initialWait raw) then initialWait raw else None)"
    if "initialWait raw \<noteq> Some (JNum 0)"
    using that by (simp add: validOptions_def keep_if_def wait_guard_iff)
  have c: "cloudflareWait (validOptions raw) =
          (if num_in_closed 0 60000 (cloudflareWait raw) then cloudflareWait raw else None)"
    if "cloudflareWait raw \<noteq> Some (JNum 0)"
    using that by (simp add: validOptions_def keep_if_def wait_guard_iff)
  have a: "additionalWait (validOptions raw) =
          (if num_in_closed 0 30000 (additionalWait raw) then additionalWait raw else None)"
    if "additionalWait raw \<noteq> Some (JNum 0)"
    using that by (simp add: validOptions_def keep_if_def wait_guard_iff)
  have h: "headers (validOptions raw) = (if is_object (headers raw) then headers raw else None)"
    by (simp add: validOptions_def keep_if_def object_guard_iff)
  have v: "viewport (validOptions raw) = (if is_object (viewport raw) then viewport raw else None)"
    by (simp add: validOptions_def keep_if_def object_guard_iff)
  have gt: "goto_timeout (validOptions raw) =
       (case timeout (validOptions raw) of None \<Rightarrow> JNum 60000 | Some v \<Rightarrow> v)"
    by (simp add: goto_timeout_def validOptions_def or_default_keep_if guard_truthy)
  have gm: "goto_waitUntil (validOptions raw) =
       (case waitUntil (validOptions raw) of None \<Rightarrow> JStr ''networkidle2'' | Some v \<Rightarrow> v)"
    by (simp add: goto_waitUntil_def validOptions_def or_default_keep_if guard_truthy)
  have gi: "initial_delay (validOptions raw) =
       (case initialWait (validOptions raw) of None \<Rightarrow> JNum 5000 | Some v \<Rightarrow> v)"
    by (simp add: initial_delay_def validOptions_def or_default_keep_if guard_truthy)
  have gc: "challenge_delay (validOptions raw) =
       (case cloudflareWait (validOptions raw) of None \<Rightarrow> JNum 10000 | Some v \<Rightarrow> v)"
    by (simp add: challenge_delay_def validOptions_def or_default_keep_if guard_truthy)
  have r: "router_post_create protocol_of (Some u) raw env now w =
          (create_reply (fst (visitCustomUrl (browser (svc w)) u (validOptions raw) env now)),
           snd (visitCustomUrl (browser (svc w)) u (validOptions raw) env now), w)"
    if "truthy (Some u) \<and> protocol_of u = Some ''https:'' \<and> \<not> isCollecting (svc w)"
    using that by (simp add: router_post_create_def isValidUrl_def split: prod.split)
  have e1: "goto_timeout (validOptions long_timeout_load) = JNum 60000"
    by (simp add: goto_timeout_def validOptions_def long_timeout_load_def no_options_def
          keep_if_def timeout_guard_def)
  have e2: "goto_waitUntil (validOptions long_timeout_load) = JStr ''load''"
    by (simp add: goto_waitUntil_def validOptions_def long_timeout_load_def no_options_def
          keep_if_def waitUntil_guard_def waitUntil_modes_def)
  show ?thesis
    using t m i c a h v gt gm gi gc r e1 e2 by blast
qed

theorem validOptions_decides_each_field_witness:
  "initialWait two_out_of_bounds \<noteq> Some (JNum 0)
   \<and> cloudflareWait two_out_of_bounds \<noteq> Some (JNum 0)
   \<and> additionalWait two_out_of_bounds \<noteq> Some (JNum 0)
   \<and> timeout (validOptions two_out_of_bounds) = None
   \<and> waitUntil (validOptions two_out_of_bounds) = Some (JStr ''load'')
   \<and> initialWait (validOptions two_out_of_bounds) = Some (JNum 1000)
   \<and> cloudflareWait (validOptions two_out_of_bounds) = None
   \<and> additionalWait (validOptions two_out_of_bounds) = None
   \<and> headers (validOptions two_out_of_bounds) = Some (JObj [(''accept-language'', JStr ''en'')])
   \<and> goto_timeout (validOptions two_out_of_bounds) = JNum 60000
   \<and> initial_delay (validOptions two_out_of_bounds) = JNum 1000
   \<and> challenge_delay (validOptions two_out_of_bounds) = JNum 10000
   \<and> truthy (Some (JStr ''https://example.com''))
   \<and> two_urls (JStr ''https://example.com'') = Some ''https:''
   \<and> \<not> isCollecting (svc serving)
   \<and> router_post_create two_urls (Some (JStr ''https://example.com'')) two_out_of_bounds page_ok
        ''2024-01-01T00:30:00.000Z'' serving =
      (create_reply (fst (visitCustomUrl (Some 1) (JStr ''https://example.com'')
                            (validOptions two_out_of_bounds) page_ok ''2024-01-01T00:30:00.000Z'')),
       snd (visitCustomUrl (Some 1) (JStr ''https://example.com'')
              (validOptions two_out_of_bounds) page_ok ''2024-01-01T00:30:00.000Z''),
       serving)"
proof -
  have raw: "initialWait two_out_of_bounds = Some (JNum 1000)"
    "cloudflareWait two_out_of_bounds = Some (JNum 90000)"
    "additionalWait two_out_of_bounds = None"
    "timeout two_out_of_bounds = Some (JNum 999999)"
    "waitUntil two_out_of_bounds = Some (JStr ''load'')"
    "headers two_out_of_bounds = Some (JObj [(''accept-language'', JStr ''en'')])"
    by (simp_all add: two_out_of_bounds_def long_timeout_load_def no_options_def)
  show ?thesis
    using validOptions_decides_each_field
            [of two_out_of_bounds "JStr ''https://example.com''" two_urls serving page_ok
                "''2024-01-01T00:30:00.000Z''"]
    by (simp add: raw serving_facts waitUntil_modes_def)
qed

subsection \<open>Zero waits\<close>

text \<open>
  C5.  A wait of 0 lies inside each of the bounds [0, 30000], [0, 60000] and
  [0, 30000], and the route compares with \<^verbatim>\<open>>= 0\<close>; the claim is that validation
  keeps it.  On \<^verbatim>\<open>{initialWait: 0, cloudflareWait: 0, additionalWait: 0}\<close> the
  route drops all three, because each test starts with the truthiness of the option
  and 0 is falsy, and the visit then waits 5000 ms and, on a challenge page,
  10000 ms.
\<close>

theorem zero_waits_dropped:
  "initialWait (validOptions zero_waits) = None
   \<and> cloudflareWait (validOptions zero_waits) = None
   \<and> additionalWait (validOptions zero_waits) = None
   \<and> initial_delay (validOptions zero_waits) = JNum 5000
   \<and> challenge_delay (validOptions zero_waits) = JNum 10000
   \<and> num_in_closed 0 30000 (initialWait zero_waits)
   \<and> num_in_closed 0 60000 (cloudflareWait zero_waits)
   \<and> num_in_closed 0 30000 (additionalWait zero_waits)"
  by (simp add: validOptions_def zero_waits_def no_options_def wait_guard_def keep_if_def
        initial_delay_def challenge_delay_def)

subsection \<open>What a reader of the store sees\<close>

text \<open>
  C6, as stated: a value returned by \<^verbatim>\<open>getCookies()\<close> is never altered by a later
  cycle.  \<^verbatim>\<open>getCookies()\<close> returns the service's own object: the reference
  obtained before a cycle is the reference the service writes through, and after
  the cycle the object behind it is no longer what it was.
\<close>

theorem getCookies_returns_the_live_object:
  "getCookies (collectAllCookies one_timeout ''2024-01-01T00:30:00.000Z'' serving) = getCookies serving
   \<and> heap (collectAllCookies one_timeout ''2024-01-01T00:30:00.000Z'' serving) (getCookies serving)
       \<noteq> heap serving (getCookies serving)"
proof -
  let ?w = "collectAllCookies one_timeout ''2024-01-01T00:30:00.000Z'' serving"
  have same: "getCookies ?w = getCookies serving"
    by (simp add: getCookies_def cycle_cookies)
  have "lastUpdated (store ?w) = Some ''2024-01-01T00:30:00.000Z''"
    by (simp add: cycle_store serving_facts)
  moreover have "lastUpdated (store serving) = Some ''2024-01-01T00:00:00.000Z''"
    by (simp add: serving_facts)
  ultimately have "store ?w \<noteq> store serving" by auto
  then have "heap ?w (getCookies serving) \<noteq> heap serving (getCookies serving)"
    by (simp add: store_def getCookies_def cycle_cookies)
  with same show ?thesis by simp
qed

text \<open>
  C6, amended.  GET / reads the store within one turn and sends a body built from
  the three cookie strings and the time stamp as they stand in that turn; the body
  is a value of its own, which later writes to the store do not reach.  The store
  itself changes only in the turn that completes a cycle, which installs all
  records of the cycle together with the stamp; every other turn leaves the store
  as it is, so no response shows a cycle applied in part.  \<^verbatim>\<open>getCookies()\<close>
  returns the same live object in every turn.
\<close>

theorem get_root_sees_whole_cycles:
  "router_get w =
     (if lastUpdated (store w) = None \<or> lastUpdated (store w) = Some []
      then not_yet_collected else Response 200 (snapshot_body (store w)))
   \<and> (store (turn p a w) = store w
       \<or> (\<exists>now ra rp rk.
             a = Finish now \<and> jobs w Animepahe = Settled ra \<and> jobs w PaheWin = Settled rp
             \<and> jobs w Kiwik = Settled rk
             \<and> store (turn p a w) =
                 \<lparr> animepahe = merge ra (animepahe (store w)),
                   paheWin = merge rp (paheWin (store w)),
                   kiwik = merge rk (kiwik (store w)),
                   lastUpdated = Some now \<rparr>))
   \<and> getCookies (turn p a w) = getCookies w"
proof (intro conjI)
  show "router_get w =
     (if lastUpdated (store w) = None \<or> lastUpdated (store w) = Some []
      then not_yet_collected else Response 200 (snapshot_body (store w)))"
    by (cases "lastUpdated (store w)") (auto simp: router_get_def store_def getCookies_def)
next
  show "getCookies (turn p a w) = getCookies w"
    by (simp add: getCookies_def turn_cookies)
next
  show "store (turn p a w) = store w
       \<or> (\<exists>now ra rp rk.
             a = Finish now \<and> jobs w Animepahe = Settled ra \<and> jobs w PaheWin = Settled rp
             \<and> jobs w Kiwik = Settled rk
             \<and> store (turn p a w) =
                 \<lparr> animepahe = merge ra (animepahe (store w)),
                   paheWin = merge rp (paheWin (store w)),
                   kiwik = merge rk (kiwik (store w)),
                   lastUpdated = Some now \<rparr>)"
  proof (cases "\<exists>now. a = Finish now")
    case False
    then show ?thesis by (simp add: turn_store)
  next
    case True
    then obtain now where a: "a = Finish now" by blast
    show ?thesis
    proof (cases "settled (jobs w Animepahe) \<and> settled (jobs w PaheWin) \<and> settled (jobs w Kiwik)")
      case False
      then have "collectAllCookies_finish now w = w"
        using finish_not_ready by blast
      with a show ?thesis by simp
    next
      case True
      then obtain ra rp rk where
        j: "jobs w Animepahe = Settled ra" "jobs w PaheWin = Settled rp" "jobs w Kiwik = Settled rk"
        by (metis settled.elims(2))
      from finish_store [OF j, of now] a j show ?thesis by simp
    qed
  qed
qed

theorem get_root_sees_whole_cycles_witness:
  "router_get serving = Response 200 (snapshot_body (store serving))
   \<and> store (turn two_urls (Settle Kiwik page_timeout) serving) = store serving
   \<and> getCookies (turn two_urls (Finish ''2024-01-01T00:30:00.000Z'') serving) = getCookies serving"
  using get_root_sees_whole_cycles [of serving two_urls "Settle Kiwik page_timeout"]
        get_root_sees_whole_cycles [of serving two_urls "Finish ''2024-01-01T00:30:00.000Z''"]
  by (simp add: serving_facts)

subsection \<open>Addresses that are not https\<close>

text \<open>
  C7.  When the address of a POST /create request does not parse as a URL whose
  protocol is \<^verbatim>\<open>https:\<close>, the handler answers 400 with one of its three format
  messages, makes no browser call at all (no page is acquired) and leaves the
  world as it was.
\<close>

theorem create_rejects_non_https:
  assumes "protocol_of u \<noteq> Some ''https:''"
  shows "router_post_create protocol_of (Some u) opts env now w =
           (if \<not> truthy (Some u) then bad_request ''URL is required''
            else if protocol_of u = None then bad_request ''Invalid URL format''
            else bad_request ''Only HTTPS URLs are allowed'',
            [], w)
         \<and> status_of (fst (router_post_create protocol_of (Some u) opts env now w)) = 400"
  using assms
  by (auto simp: router_post_create_def isValidUrl_def bad_request_def split: option.split)

theorem create_rejects_non_https_witness:
  "two_urls (JStr ''http://example.com'') \<noteq> Some ''https:''
   \<and> router_post_create two_urls (Some (JStr ''http://example.com'')) no_options page_ok
        ''2024-01-01T00:30:00.000Z'' serving =
      (bad_request ''Only HTTPS URLs are allowed'', [], serving)"
proof -
  have h: "two_urls (JStr ''http://example.com'') \<noteq> Some ''https:''" by simp
  show ?thesis
    using h create_rejects_non_https [of two_urls "JStr ''http://example.com''" no_options page_ok
        "''2024-01-01T00:30:00.000Z''" serving, OF h]
    by simp
qed

subsection \<open>Pages are released\<close>

text \<open>
  C8.  Whenever a visit has acquired its page, the calls it makes are: the
  acquisition, then page work that neither acquires nor closes a page, then exactly
  one \<^verbatim>\<open>page.close()\<close>, which is the last call before the visit returns.  This
  holds whatever each call on the page does (resolve or throw), for the ad-hoc
  visit and for the three built-in ones.  When no page was acquired there is
  nothing to close and no close is made.
\<close>

theorem page_closed_exactly_once:
  "(on_newPage env = Resolves () \<longrightarrow>
      (\<exists>work. snd (visitCustomUrl (Some b) url opts env now) = NewPage # work @ [ClosePage]
              \<and> ClosePage \<notin> set work \<and> NewPage \<notin> set work)
    \<and> (\<exists>work. snd (visit x (Some b) env) = NewPage # work @ [ClosePage]
              \<and> ClosePage \<notin> set work \<and> NewPage \<notin> set work))
   \<and> (on_newPage env = Throws m \<longrightarrow>
        snd (visitCustomUrl (Some b) url opts env now) = [NewPage]
        \<and> snd (visit x (Some b) env) = [NewPage])
   \<and> snd (visitCustomUrl None url opts env now) = []
   \<and> snd (visit x None env) = []"
proof -
  obtain u where u: "visit x = (\<lambda>b env. visitSite b u env)"
    using visit_is_visitSite by blast
  show ?thesis
    using visitCustomUrl_try_no_close [of url opts env]
      visitCustomUrl_try_no_newPage [of url opts env]
      visitSite_try_no_close [of u env] visitSite_try_no_newPage [of u env]
    by (simp add: visitCustomUrl_trace visitSite_trace u)
qed

theorem page_closed_exactly_once_witness:
  "on_newPage page_timeout = Resolves ()
   \<and> (\<exists>work. snd (visitCustomUrl (Some 1) (JStr ''https://example.com'') no_options
                    page_timeout ''2024-01-01T00:30:00.000Z'') = NewPage # work @ [ClosePage]
             \<and> ClosePage \<notin> set work \<and> NewPage \<notin> set work)
   \<and> (\<exists>work. snd (visit Kiwik (Some 1) page_timeout) = NewPage # work @ [ClosePage]
             \<and> ClosePage \<notin> set work \<and> NewPage \<notin> set work)
   \<and> on_newPage page_refused = Throws ''Protocol error: Target closed''
   \<and> snd (visit Kiwik (Some 1) page_refused) = [NewPage]"
proof -
  have h: "on_newPage page_timeout = Resolves ()"
    by (simp add: page_timeout_def page_ok_def)
  have r: "on_newPage page_refused = Throws ''Protocol error: Target closed''"
    by (simp add: page_refused_def page_ok_def)
  show ?thesis
    using h r
      page_closed_exactly_once [of page_timeout 1 "JStr ''https://example.com''"
        no_options "''2024-01-01T00:30:00.000Z''" Kiwik]
      page_closed_exactly_once [of page_refused 1 "JStr ''https://example.com''"
        no_options "''2024-01-01T00:30:00.000Z''" Kiwik "''Protocol error: Target closed''"]
    by simp
qed

subsection \<open>Shutdown\<close>




subsection \<open>GET / before the first cycle\<close>

text \<open>
  C10.  While \<^verbatim>\<open>lastUpdated\<close> is \<^verbatim>\<open>null\<close>, GET / answers 503 with the
  not-yet-collected error and no snapshot; this is so in the fresh service and
  after any turns among which no cycle has completed.  A 200 answer is given only
  when \<^verbatim>\<open>lastUpdated\<close> has been set, and once it holds a time stamp the answer is
  the view of the records.
\<close>

theorem get_unavailable_until_first_cycle:
  "(lastUpdated (store w) = None \<longrightarrow> router_get w = not_yet_collected)
   \<and> ((\<forall>a \<in> set as. \<forall>t. a \<noteq> Finish t) \<longrightarrow>
        router_get (run protocol_of as constructor) = not_yet_collected)
   \<and> status_of not_yet_collected = 503
   \<and> (status_of (router_get w) = 200 \<longrightarrow> lastUpdated (store w) \<noteq> None)
   \<and> (lastUpdated (store w) = Some ts \<and> ts \<noteq> [] \<longrightarrow>
        router_get w = Response 200 (snapshot_body (store w)))"
proof -
  have none: "router_get v = not_yet_collected" if "lastUpdated (store v) = None" for v
    using that by (simp add: router_get_def store_def getCookies_def)
  have fresh: "lastUpdated (store constructor) = None"
    by (simp add: store_def constructor_def)
  have quiet: "router_get (run protocol_of as constructor) = not_yet_collected"
    if "\<forall>a \<in> set as. \<forall>t. a \<noteq> Finish t"
    using that fresh by (intro none) (simp add: run_store)
  have ok: "lastUpdated (store w) \<noteq> None" if "status_of (router_get w) = 200"
  proof
    assume "lastUpdated (store w) = None"
    then have "router_get w = not_yet_collected" by (rule none)
    with that show False by (simp add: not_yet_collected_def)
  qed
  have some: "router_get w = Response 200 (snapshot_body (store w))"
    if "lastUpdated (store w) = Some ts" "ts \<noteq> []"
    using that by (simp add: router_get_def store_def getCookies_def)
  show ?thesis
    using none [of w] quiet ok some by (simp add: not_yet_collected_def)
qed

theorem get_unavailable_until_first_cycle_witness:
  "lastUpdated (store starting) = None \<and> router_get starting = not_yet_collected
   \<and> router_get (run two_urls [Launched 1, Trigger ''t'' Manual, Settle Kiwik page_timeout, GetRoot]
        constructor) = not_yet_collected
   \<and> lastUpdated (store serving) = Some ''2024-01-01T00:00:00.000Z''
   \<and> router_get serving = Response 200 (snapshot_body (store serving))"
  using get_unavailable_until_first_cycle
          [of starting "[Launched 1, Trigger ''t'' Manual, Settle Kiwik page_timeout, GetRoot]"
              two_urls]
        get_unavailable_until_first_cycle
          [of serving "[]" two_urls "''2024-01-01T00:00:00.000Z''"]
  by (simp add: starting_facts serving_facts constructor_store)

end
